theory Spec2Isabelle
  imports Complex_Main "HOL-Library.Char_ord" "HOL-Library.List_Lexorder"
begin

chapter \<open>The line chart (src/charts/line.js)\<close>

text \<open>
  The functions of the line chart that normalize the data, build the scales, choose the
  number of ticks of the value axis and handle the mouse: \<open>cleanData\<close>, \<open>buildScales\<close>,
  \<open>buildAxis\<close> (its tick number), \<open>findOutNearestDate\<close>, \<open>getNearestDataPoint\<close>,
  \<open>handleMouseMove\<close> and \<open>highlightDataPoints\<close>. The built-ins of the host
  (\<open>new Date\<close> of a string, the conversion of a string to a number, \<open>sort\<close>) are
  parameters; the d3 functions are modelled by the loops of their implementation.
\<close>

section \<open>Values of the host language\<close>

text \<open>
  A JavaScript number is a finite number or \<open>NaN\<close>. Values of samples are reals: the
  chart compares them, takes absolute values and subtracts the lower bound of the value
  domain (which is 0) and 1 from a tick count, all exact on doubles. Time values of
  \<open>Date\<close> objects are integers (milliseconds since the epoch), and \<open>NaN\<close> is the time
  value of an \<open>Invalid Date\<close>. Infinities are left out. \<open>undefined\<close> is \<open>None\<close> of an
  option type.
\<close>

datatype 'a js_num = Num 'a | NaN

type_synonym js_date = "int js_num"

text \<open>The relational operators: a comparison with \<open>NaN\<close> is false.\<close>

fun js_lt :: "'a::linorder js_num \<Rightarrow> 'a js_num \<Rightarrow> bool" where
  "js_lt (Num a) (Num b) = (a < b)"
| "js_lt _ _ = False"

fun js_gt :: "'a::linorder js_num \<Rightarrow> 'a js_num \<Rightarrow> bool" where
  "js_gt (Num a) (Num b) = (a > b)"
| "js_gt _ _ = False"

fun js_sub :: "'a::minus js_num \<Rightarrow> 'a js_num \<Rightarrow> 'a js_num" where
  "js_sub (Num a) (Num b) = Num (a - b)"
| "js_sub _ _ = NaN"

text \<open>\<open>Math.abs\<close>, applied to a number or to \<open>undefined\<close> (which converts to \<open>NaN\<close>).\<close>

fun math_abs :: "real js_num option \<Rightarrow> real js_num" where
  "math_abs (Some (Num r)) = Num \<bar>r\<bar>"
| "math_abs _ = NaN"

text \<open>
  The value field of a raw sample, as the caller supplies it: a number, a string, or
  nothing. Unary plus converts it to a number; the conversion of a string is the host's
  (\<open>StringToNumber\<close>), taken as a parameter.
\<close>

datatype raw_value = RNum "real js_num" | RStr string | RUndefined

fun unary_plus :: "(string \<Rightarrow> real js_num) \<Rightarrow> raw_value \<Rightarrow> real js_num" where
  "unary_plus s2n (RNum n) = n"
| "unary_plus s2n (RStr s) = s2n s"
| "unary_plus s2n RUndefined = NaN"

section \<open>The d3 functions the chart calls\<close>

text \<open>
  \<open>d3Array.min(array, f)\<close> and \<open>d3Array.max(array, f)\<close>, applied here to the list of the
  accessor's results: the first loop looks for the first value that is neither
  \<open>undefined\<close> nor \<open>NaN\<close>, the second loop compares the remaining ones with it. The result
  is \<open>undefined\<close> when no value is comparable.
\<close>

fun d3_min_rest :: "'a::linorder \<Rightarrow> 'a js_num option list \<Rightarrow> 'a" where
  "d3_min_rest a [] = a"
| "d3_min_rest a (Some (Num b) # xs) = d3_min_rest (if a > b then b else a) xs"
| "d3_min_rest a (_ # xs) = d3_min_rest a xs"

fun d3_min :: "'a::linorder js_num option list \<Rightarrow> 'a js_num option" where
  "d3_min [] = None"
| "d3_min (Some (Num b) # xs) = Some (Num (d3_min_rest b xs))"
| "d3_min (_ # xs) = d3_min xs"

fun d3_max_rest :: "'a::linorder \<Rightarrow> 'a js_num option list \<Rightarrow> 'a" where
  "d3_max_rest a [] = a"
| "d3_max_rest a (Some (Num b) # xs) = d3_max_rest (if b > a then b else a) xs"
| "d3_max_rest a (_ # xs) = d3_max_rest a xs"

fun d3_max :: "'a::linorder js_num option list \<Rightarrow> 'a js_num option" where
  "d3_max [] = None"
| "d3_max (Some (Num b) # xs) = Some (Num (d3_max_rest b xs))"
| "d3_max (_ # xs) = d3_max xs"

text \<open>
  \<open>d3Collection.nest().key(f).entries(array)\<close> with one key function and no key order:
  the loop looks each element's key up in a map, appends the element to the values of a
  key already there and adds a new key otherwise; the entries come out in the order in
  which the keys were first added (the map's iteration order; d3 promises no order
  without \<open>sortKeys\<close>).
\<close>

fun nest_add :: "string \<Rightarrow> 'a \<Rightarrow> (string \<times> 'a list) list \<Rightarrow> (string \<times> 'a list) list" where
  "nest_add k v [] = [(k, [v])]"
| "nest_add k v ((k', vs) # m) =
     (if k = k' then (k', vs @ [v]) # m else (k', vs) # nest_add k v m)"

definition nest_entries :: "('a \<Rightarrow> string) \<Rightarrow> 'a list \<Rightarrow> (string \<times> 'a list) list" where
  "nest_entries f array = foldl (\<lambda>m v. nest_add (f v) v m) [] array"

text \<open>
  \<open>d3Array.bisector(f).left(a, x, lo, hi)\<close>: the comparator is \<open>ascending(f(d), x)\<close>, which is
  negative exactly when \<open>f(d) < x\<close>. The midpoint \<open>lo + hi >>> 1\<close> is the half of the sum
  as long as the sum is below \<open>2^32\<close>, that is for every array of fewer than \<open>2^31\<close>
  entries. The loop reads \<open>a[mid]\<close> with \<open>lo \<le> mid < hi\<close> only, inside the array when
  \<open>hi\<close> is at most its length.
\<close>

function bisector_left ::
  "('e \<Rightarrow> 'k::linorder js_num) \<Rightarrow> 'e list \<Rightarrow> 'k js_num \<Rightarrow> nat \<Rightarrow> nat \<Rightarrow> nat" where
  "bisector_left f a x lo hi =
     (if lo < hi
      then (let mid = (lo + hi) div 2
            in if js_lt (f (a ! mid)) x then bisector_left f a x (mid + 1) hi
               else bisector_left f a x lo mid)
      else lo)"
  by pat_completeness auto
termination
  by (relation "measure (\<lambda>(f, a, x, lo, hi). hi - lo)") auto

declare bisector_left.simps [simp del]

section \<open>The data model\<close>

text \<open>
  The records follow the objects of the source. \<open>getDate = ({date}) => date\<close> is applied
  to samples, to flattened items and to by-date entries alike; the selector \<open>date\<close> of the
  common parent record plays its part. The type parameters are the types of the date and
  value fields: a string and a raw value before normalization, a \<open>Date\<close> and a number
  after it (the source overwrites the two fields in place). The field labels are the
  default ones (\<open>date\<close>, \<open>value\<close>, \<open>topic\<close>, \<open>topicName\<close>). The \<open>topicName\<close> of a
  flattened item is called \<open>itemTopicName\<close> here.
\<close>

record 'd dated =
  date :: 'd

record ('d, 'v) date_entry = "'d dated" +
  "value" :: 'v

record ('d, 'v) topic_data =
  topicName :: string
  topic :: int
  dates :: "('d, 'v) date_entry list"

record flat_item = "(string, raw_value) date_entry" +
  itemTopicName :: string
  name :: int

text \<open>
  An entry of the by-date index. The elements of \<open>topics\<close> are what a JavaScript array can
  hold: an item, or a falsy hole (\<open>None\<close>).
\<close>

record by_date_entry = "js_date dated" +
  topics :: "flat_item option list"

record ('d, 'v) chart_data =
  dataByTopic :: "('d, 'v) topic_data list option"
  dataByDate :: "by_date_entry list option"

section \<open>cleanData\<close>

text \<open>
  The host's \<open>new Date(string)\<close> is a parameter (\<open>newDate\<close>): it gives the time value of
  the date the string denotes, or \<open>NaN\<close> (Invalid Date) for a string it cannot parse.
  \<open>new Date(date)\<close> of a \<open>Date\<close> copies its time value.
\<close>

definition flatData_of :: "(string, raw_value) topic_data list \<Rightarrow> flat_item list" where
  "flatData_of byTopic =
     concat (map (\<lambda>t. map (\<lambda>d. \<lparr>date = date d, value = value d,
                                    itemTopicName = topicName t, name = topic t\<rparr>) (dates t))
                 byTopic)"

definition copyDate :: "js_date \<Rightarrow> js_date" where
  "copyDate d = d"

definition cleanData ::
  "(string \<Rightarrow> js_date) \<Rightarrow> (string \<Rightarrow> real js_num) \<Rightarrow> (string, raw_value) chart_data
     \<Rightarrow> (js_date, real js_num) chart_data" where
  "cleanData newDate s2n data =
     (case dataByTopic data of
        None \<Rightarrow> \<lparr>dataByTopic = None, dataByDate = dataByDate data\<rparr>
      | Some byTopic \<Rightarrow>
          (let flatData = flatData_of byTopic;
               byDate = map (\<lambda>(key, values). \<lparr>date = newDate key, topics = map Some values\<rparr>)
                            (nest_entries date flatData);
               byDate = map (\<lambda>d. d\<lparr>date := copyDate (date d)\<rparr>) byDate;
               byTopic = map (\<lambda>kv. \<lparr>topicName = topicName kv, topic = topic kv,
                                       dates = map (\<lambda>d. \<lparr>date = newDate (date d),
                                                            value = unary_plus s2n (value d)\<rparr>)
                                                   (dates kv)\<rparr>)
                             byTopic
           in \<lparr>dataByTopic = Some byTopic, dataByDate = Some byDate\<rparr>))"

section \<open>buildScales\<close>

text \<open>
  The scales are recorded by what \<open>buildScales\<close> passes to them: the domain and the
  rounded range of the time scale and of the value scale, the domain and range of the
  ordinal colour scale, and the colour map. \<open>yScale_domain\<close> is the domain before
  \<open>.nice()\<close> extends it to round numbers. \<open>d3Array.min(undefined, f)\<close> reads the length of
  \<open>undefined\<close>: a \<open>TypeError\<close>.
\<close>

datatype error = TypeError

record scales =
  xScale_domain :: "js_date option \<times> js_date option"
  xScale_rangeRound :: "real \<times> real"
  yScale_domain :: "real js_num \<times> real js_num"
  yScale_rangeRound :: "real \<times> real"
  colorScale_domain :: "int list"
  colorScale_range :: "string list"
  topicColorMap :: "(int \<times> string option) list"

text \<open>The domain of an ordinal scale keeps the first occurrence of each value.\<close>

definition ordinal_domain :: "'a list \<Rightarrow> 'a list" where
  "ordinal_domain xs = foldl (\<lambda>dom d. if d \<in> set dom then dom else dom @ [d]) [] xs"

definition nth_opt :: "'a list \<Rightarrow> nat \<Rightarrow> 'a option" where
  "nth_opt xs i = (if i < length xs then Some (xs ! i) else None)"

definition buildScales ::
  "(js_date, real js_num) topic_data list option \<Rightarrow> real \<Rightarrow> real \<Rightarrow> string list
     \<Rightarrow> error + scales" where
  "buildScales byTopic chartWidth chartHeight colorSchema =
     (case byTopic of
        None \<Rightarrow> Inl TypeError
      | Some ts \<Rightarrow>
          (let minX = d3_min (map (\<lambda>t. d3_min (map (\<lambda>d. Some (date d)) (dates t))) ts);
               maxX = d3_max (map (\<lambda>t. d3_max (map (\<lambda>d. Some (date d)) (dates t))) ts);
               maxY = d3_max (map (\<lambda>t. d3_max (map (\<lambda>d. Some (value d)) (dates t))) ts);
               minY = d3_min (map (\<lambda>t. d3_min (map (\<lambda>d. Some (value d)) (dates t))) ts);
               yScaleBottomValue = (if js_lt (math_abs minY) (Num 0) then math_abs minY else Num 0);
               dom = ordinal_domain (map topic ts);
               range = colorSchema
           in Inr \<lparr>xScale_domain = (minX, maxX),
                   xScale_rangeRound = (0, chartWidth),
                   yScale_domain = (yScaleBottomValue, math_abs maxY),
                   yScale_rangeRound = (chartHeight, 0),
                   colorScale_domain = dom,
                   colorScale_range = range,
                   topicColorMap = map (\<lambda>i. (dom ! i, nth_opt range i)) [0..<length dom]\<rparr>))"

section \<open>buildAxis: the number of ticks of the value axis\<close>

text \<open>
  \<open>buildAxis\<close> reads the domain of the value scale (as \<open>yScale.domain()\<close> returns it, after
  \<open>.nice()\<close>) and the configured \<open>verticalTicks\<close>; the number it computes goes to
  \<open>yAxis.ticks\<close> and to \<open>drawGridLines\<close>.
\<close>

definition buildAxis_yTickNumber :: "real js_num \<times> real js_num \<Rightarrow> real js_num \<Rightarrow> real js_num" where
  "buildAxis_yTickNumber yDomain verticalTicks =
     (let dataTimeSpan = js_sub (snd yDomain) (fst yDomain)
      in if js_lt dataTimeSpan (js_sub verticalTicks (Num 1)) then dataTimeSpan
         else verticalTicks)"

section \<open>The nearest data point\<close>

text \<open>
  A data point is an object of the array \<open>dataByDate\<close>, and \<open>highlightDataPoints\<close> assigns
  to its \<open>topics\<close>; such a reference is modelled by the index of the entry in
  \<open>dataByDate\<close>. Reading \<open>dataByDate[i]\<close> beyond the end gives \<open>undefined\<close>.
\<close>

definition array_ref :: "'a list \<Rightarrow> nat \<Rightarrow> nat option" where
  "array_ref a i = (if i < length a then Some i else None)"

definition findOutNearestDate :: "by_date_entry list \<Rightarrow> js_date \<Rightarrow> nat \<Rightarrow> nat \<Rightarrow> nat" where
  "findOutNearestDate byDate x0 d0 d1 =
     (if js_gt (js_sub (copyDate x0) (copyDate (date (byDate ! d0))))
               (js_sub (copyDate (date (byDate ! d1))) (copyDate x0))
      then d0 else d1)"

definition getNearestDataPoint ::
  "(real \<Rightarrow> js_date) \<Rightarrow> by_date_entry list \<Rightarrow> real \<Rightarrow> nat option" where
  "getNearestDataPoint xScale_invert byDate mouseX =
     (let dateFromInvertedX = xScale_invert mouseX;
          dataEntryIndex = bisector_left date byDate dateFromInvertedX 1 (length byDate);
          dataEntryForXPosition = array_ref byDate dataEntryIndex;
          previousDataEntryForXPosition = array_ref byDate (dataEntryIndex - 1)
      in case (previousDataEntryForXPosition, dataEntryForXPosition) of
           (Some previous, Some current) \<Rightarrow>
             Some (findOutNearestDate byDate dateFromInvertedX current previous)
         | _ \<Rightarrow> dataEntryForXPosition)"

section \<open>The mouse-move handler\<close>

text \<open>
  The part of the chart the handler reads and writes: the by-date index, the colour map,
  the scales (as the functions they are), the left margin, the vertical marker (the x of
  its \<open>translate\<close>), the highlight circles inside the marker container, and the calls of
  the dispatcher so far.
\<close>

record circle =
  stroke :: "string option"
  cy :: "real js_num"

datatype event =
    CustomMouseOver
  | CustomMouseOut
  | CustomMouseMove by_date_entry "(int \<times> string option) list" "real js_num"

record chart =
  byDate :: "by_date_entry list"
  colorMap :: "(int \<times> string option) list"
  xScale :: "js_date \<Rightarrow> real js_num"
  xScale_invert :: "real \<Rightarrow> js_date"
  yScale :: "raw_value \<Rightarrow> real js_num"
  marginLeft :: real
  verticalMarkerX :: "real js_num"
  circles :: "circle list"
  dispatched :: "event list"

text \<open>\<open>topicColorMap[name]\<close>: the colour, or \<open>undefined\<close>.\<close>

definition colorOf :: "(int \<times> string option) list \<Rightarrow> int \<Rightarrow> string option" where
  "colorOf m n = (case map_of m n of Some c \<Rightarrow> c | None \<Rightarrow> None)"

text \<open>
  \<open><\<close> on two strings compares them by code units; with \<open>undefined\<close> on either side it is
  false. The comparison function handed to \<open>sort\<close> returns this boolean, which \<open>sort\<close>
  converts to the number 1 or 0.
\<close>

fun js_str_lt :: "string option \<Rightarrow> string option \<Rightarrow> bool" where
  "js_str_lt (Some a) (Some b) = (a < b)"
| "js_str_lt _ _ = False"

definition highlightCompare :: "(int \<times> string option) list \<Rightarrow> flat_item \<Rightarrow> flat_item \<Rightarrow> real" where
  "highlightCompare m a b = (if js_str_lt (colorOf m (name a)) (colorOf m (name b)) then 1 else 0)"

definition cleanDataPointHighlights :: "chart \<Rightarrow> chart" where
  "cleanDataPointHighlights st = st\<lparr>circles := []\<rparr>"

definition moveVerticalMarker :: "real js_num \<Rightarrow> chart \<Rightarrow> chart" where
  "moveVerticalMarker verticalMarkerXPosition st = st\<lparr>verticalMarkerX := verticalMarkerXPosition\<rparr>"

text \<open>
  \<open>Array.prototype.sort\<close> is the host's, a parameter (\<open>arraySort\<close>): it gets the comparison
  function and the array. \<open>filter(t => !!t)\<close> keeps the items and drops the holes.
\<close>

definition highlightDataPoints ::
  "((flat_item \<Rightarrow> flat_item \<Rightarrow> real) \<Rightarrow> flat_item list \<Rightarrow> flat_item list) \<Rightarrow> nat \<Rightarrow> chart \<Rightarrow> chart" where
  "highlightDataPoints arraySort dataPoint st0 =
     (let st = cleanDataPointHighlights st0;
          sorted_topics = arraySort (highlightCompare (colorMap st))
                            (List.map_filter (\<lambda>t. t) (topics (byDate st ! dataPoint)));
          st = st\<lparr>byDate := (byDate st)[dataPoint :=
                     (byDate st ! dataPoint)\<lparr>topics := map Some sorted_topics\<rparr>]\<rparr>
      in st\<lparr>circles := circles st @
                 map (\<lambda>t. \<lparr>stroke = colorOf (colorMap st) (name t), cy = yScale st (value t)\<rparr>)
                     sorted_topics\<rparr>)"

definition handleMouseMove ::
  "((flat_item \<Rightarrow> flat_item \<Rightarrow> real) \<Rightarrow> flat_item list \<Rightarrow> flat_item list) \<Rightarrow> real \<Rightarrow> chart \<Rightarrow> chart" where
  "handleMouseMove arraySort mouseXPosition st =
     (let xPositionOffset = - marginLeft st;
          dataPoint = getNearestDataPoint (xScale_invert st) (byDate st)
                        (mouseXPosition + xPositionOffset)
      in case dataPoint of
           None \<Rightarrow> st
         | Some p \<Rightarrow>
             (let dataPointXPosition = xScale st (copyDate (date (byDate st ! p)));
                  st = moveVerticalMarker dataPointXPosition st;
                  st = highlightDataPoints arraySort p st
              in st\<lparr>dispatched := dispatched st @
                        [CustomMouseMove (byDate st ! p) (colorMap st) dataPointXPosition]\<rparr>))"

section \<open>Notions the statements use\<close>

text \<open>
  The comparable values of a list of accessor results: the numbers, without \<open>undefined\<close>
  and \<open>NaN\<close>; and the numeric values of all samples of a normalized dataset.
\<close>

definition comparable :: "'a js_num option list \<Rightarrow> 'a list" where
  "comparable xs = concat (map (\<lambda>x. case x of Some (Num v) \<Rightarrow> [v] | _ \<Rightarrow> []) xs)"

definition values_of :: "(js_date, real js_num) topic_data list \<Rightarrow> real list" where
  "values_of ts = comparable (concat (map (\<lambda>t. map (\<lambda>d. Some (value d)) (dates t)) ts))"

text \<open>The two indices of a result, empty when \<open>undefined\<close>.\<close>

definition entries_of :: "('d, 'v) chart_data \<Rightarrow> by_date_entry list" where
  "entries_of data = (case dataByDate data of Some b \<Rightarrow> b | None \<Rightarrow> [])"

definition topics_of :: "('d, 'v) chart_data \<Rightarrow> ('d, 'v) topic_data list" where
  "topics_of data = (case dataByTopic data of Some ts \<Rightarrow> ts | None \<Rightarrow> [])"

text \<open>
  The triples \<open>(topic, date, value)\<close> of the by-topic index, and those of an entry of the
  by-date index: the entry's date with the topic and the (converted) value of each of its
  items.
\<close>

definition byTopic_triples ::
  "(js_date, real js_num) topic_data list \<Rightarrow> (int \<times> js_date \<times> real js_num) list" where
  "byTopic_triples ts = concat (map (\<lambda>t. map (\<lambda>d. (topic t, date d, value d)) (dates t)) ts)"

definition entry_triples ::
  "(string \<Rightarrow> real js_num) \<Rightarrow> by_date_entry \<Rightarrow> (int \<times> js_date \<times> real js_num) list" where
  "entry_triples s2n e =
     map (\<lambda>i. (name i, date e, unary_plus s2n (value i))) (List.map_filter (\<lambda>t. t) (topics e))"

text \<open>The triple a flattened item stands for: its topic, its date parsed, its value converted.\<close>

definition triple_of ::
  "(string \<Rightarrow> js_date) \<Rightarrow> (string \<Rightarrow> real js_num) \<Rightarrow> flat_item \<Rightarrow> int \<times> js_date \<times> real js_num" where
  "triple_of newDate s2n i = (name i, newDate (date i), unary_plus s2n (value i))"

section \<open>The head of \<open>exports\<close>\<close>

text \<open>
  For each datum of the selection \<open>exports\<close> normalizes the data, derives the chart's
  width and height from the configured size and margins, and builds the scales.
\<close>

record margins =
  top :: real
  right :: real
  bottom :: real
  left :: real

definition exports_head ::
  "(string \<Rightarrow> js_date) \<Rightarrow> (string \<Rightarrow> real js_num) \<Rightarrow> real \<Rightarrow> real \<Rightarrow> margins \<Rightarrow> string list
     \<Rightarrow> (string, raw_value) chart_data \<Rightarrow> (js_date, real js_num) chart_data \<times> (error + scales)" where
  "exports_head newDate s2n width height margin colorSchema data =
     (let cleaned = cleanData newDate s2n data;
          chartWidth = width - left margin - right margin;
          chartHeight = height - top margin - bottom margin
      in (cleaned, buildScales (dataByTopic cleaned) chartWidth chartHeight colorSchema))"

section \<open>Data of the examples\<close>

text \<open>
  The host's conversions on the strings the examples use: ISO date strings with their time
  values in milliseconds (1577836800000 is 2020-01-01T00:00:00Z, a day has 86400000 ms),
  and numeric strings. Every other string the examples use is one the host cannot parse.
  The size and margins are the chart's defaults.
\<close>

definition exampleNewDate :: "string \<Rightarrow> js_date" where
  "exampleNewDate s =
     (if s = ''2020-01-01'' then Num 1577836800000
      else if s = ''2020-01-02'' then Num 1577923200000
      else if s = ''2020-01-01T00:00:00Z'' then Num 1577836800000
      else if s = ''2020-01-01T00:00:00.000Z'' then Num 1577836800000
      else NaN)"

definition exampleToNumber :: "string \<Rightarrow> real js_num" where
  "exampleToNumber s = (if s = ''2'' then Num 2 else NaN)"

definition defaultMargin :: margins where
  "defaultMargin = \<lparr>top = 60, right = 30, bottom = 40, left = 70\<rparr>"

definition sample :: "string \<Rightarrow> real \<Rightarrow> (string, raw_value) date_entry" where
  "sample d v = \<lparr>date = d, value = RNum (Num v)\<rparr>"

text \<open>One topic whose samples come later date first.\<close>

definition dataset_descending :: "(string, raw_value) chart_data" where
  "dataset_descending =
     \<lparr>dataByTopic = Some [\<lparr>topicName = ''A'', topic = 1,
                            dates = [sample ''2020-01-02'' 3, sample ''2020-01-01'' 1]\<rparr>],
      dataByDate = None\<rparr>"

text \<open>One topic with two samples of the same instant, written in two ways, and the same value.\<close>

definition dataset_same_instant :: "(string, raw_value) chart_data" where
  "dataset_same_instant =
     \<lparr>dataByTopic = Some [\<lparr>topicName = ''A'', topic = 1,
                            dates = [sample ''2020-01-01T00:00:00Z'' 1,
                                     sample ''2020-01-01T00:00:00.000Z'' 1]\<rparr>],
      dataByDate = None\<rparr>"

text \<open>Two topics: A with 1 and 3 on two days, B with 2 on the first day.\<close>

definition dataset_two_topics :: "(string, raw_value) chart_data" where
  "dataset_two_topics =
     \<lparr>dataByTopic = Some [\<lparr>topicName = ''A'', topic = 1,
                            dates = [sample ''2020-01-01'' 1, sample ''2020-01-02'' 3]\<rparr>,
                          \<lparr>topicName = ''B'', topic = 2,
                            dates = [sample ''2020-01-01'' 2]\<rparr>],
      dataByDate = None\<rparr>"

text \<open>One topic with a sample whose date cannot be parsed and one whose value cannot.\<close>

definition dataset_malformed :: "(string, raw_value) chart_data" where
  "dataset_malformed =
     \<lparr>dataByTopic = Some [\<lparr>topicName = ''A'', topic = 1,
                            dates = [sample ''not a date'' 1,
                                     \<lparr>date = ''2020-01-01'', value = RStr ''abc''\<rparr>]\<rparr>],
      dataByDate = None\<rparr>"

text \<open>
  By-date entries without topics at the given time values, and the inverse of a time scale
  whose domain and range are both \<open>[0, 100]\<close>: a pixel position (not negative) is its own
  time value, cut to whole milliseconds.
\<close>

definition entry_at :: "int \<Rightarrow> by_date_entry" where
  "entry_at t = \<lparr>date = Num t, topics = []\<rparr>"

definition identity_invert :: "real \<Rightarrow> js_date" where
  "identity_invert x = Num \<lfloor>x\<rfloor>"

text \<open>
  A chart whose by-date index has the entries at 10 and 20, with the scale above in both
  directions, the default left margin and the marker at its initial place.
\<close>

definition identity_scale :: "js_date \<Rightarrow> real js_num" where
  "identity_scale d = (case d of Num t \<Rightarrow> Num (of_int t) | NaN \<Rightarrow> NaN)"

definition example_chart :: chart where
  "example_chart =
     \<lparr>byDate = [entry_at 10, entry_at 20], colorMap = [],
      xScale = identity_scale, xScale_invert = identity_invert, yScale = (\<lambda>v. Num 0),
      marginLeft = 70, verticalMarkerX = Num 9999, circles = [], dispatched = []\<rparr>"

text \<open>
  Two hosts' \<open>sort\<close> on a short array. The first moves an element only when a comparison
  is negative (V8 since version 7.0): with a comparison function that is never negative
  the array stays as it is. The second is the insertion sort that moves an element to the
  left past every element whose comparison with it is positive (V8 before 7.0 on arrays
  of at most ten elements); \<open>insert_left\<close> works on the sorted prefix in reverse.
\<close>

definition keep_order :: "('a \<Rightarrow> 'a \<Rightarrow> real) \<Rightarrow> 'a list \<Rightarrow> 'a list" where
  "keep_order compare array = array"

fun insert_left :: "('a \<Rightarrow> 'a \<Rightarrow> real) \<Rightarrow> 'a \<Rightarrow> 'a list \<Rightarrow> 'a list" where
  "insert_left compare element [] = [element]"
| "insert_left compare element (tmp # rest) =
     (if compare tmp element > 0 then tmp # insert_left compare element rest
      else element # tmp # rest)"

definition insertion_sort :: "('a \<Rightarrow> 'a \<Rightarrow> real) \<Rightarrow> 'a list \<Rightarrow> 'a list" where
  "insertion_sort compare array = rev (foldl (\<lambda>sorted_prefix element. insert_left compare element sorted_prefix) [] array)"

text \<open>
  An item of a topic; a colour map that gives three topics three colours in turn; and the
  chart above with one entry whose topic list is given, and these colours.
\<close>

definition item_of :: "int \<Rightarrow> flat_item" where
  "item_of n = \<lparr>date = ''2020-01-01'', value = RNum (Num 1), itemTopicName = ''T'', name = n\<rparr>"

definition three_colors :: "(int \<times> string option) list" where
  "three_colors = [(1, Some ''#6aedc7''), (2, Some ''#39c2c9''), (3, Some ''#ffce00'')]"

definition chart_with_topics :: "flat_item option list \<Rightarrow> chart" where
  "chart_with_topics ts =
     example_chart\<lparr>byDate := [\<lparr>date = Num 10, topics = ts\<rparr>], colorMap := three_colors\<rparr>"

text \<open>A normalized topic with two samples of the given values.\<close>

definition topic_between :: "real \<Rightarrow> real \<Rightarrow> (js_date, real js_num) topic_data" where
  "topic_between v w =
     \<lparr>topicName = ''A'', topic = 1,
      dates = [\<lparr>date = Num 1577836800000, value = Num v\<rparr>,
               \<lparr>date = Num 1577923200000, value = Num w\<rparr>]\<rparr>"

section \<open>The extrema of d3\<close>

lemma comparable_simps:
  "comparable [] = []"
  "comparable (Some (Num v) # xs) = v # comparable xs"
  "comparable (Some NaN # xs) = comparable xs"
  "comparable (None # xs) = comparable xs"
  by (simp_all add: comparable_def)

lemma d3_max_rest_fold: "d3_max_rest a xs = fold max (comparable xs) a"
  by (induction a xs rule: d3_max_rest.induct) (auto simp: comparable_simps max_def)

lemma d3_max_rest_Max: "d3_max_rest a xs = Max (insert a (set (comparable xs)))"
  using Max.set_eq_fold [of a "comparable xs"] by (simp add: d3_max_rest_fold)

lemma d3_min_rest_fold: "d3_min_rest a xs = fold min (comparable xs) a"
  by (induction a xs rule: d3_min_rest.induct) (auto simp: comparable_simps min_def)

lemma d3_max_Max:
  "d3_max xs = (if comparable xs = [] then None else Some (Num (Max (set (comparable xs)))))"
  by (induction xs rule: d3_max.induct) (simp_all add: comparable_simps d3_max_rest_Max)


lemma comparable_append: "comparable (xs @ ys) = comparable xs @ comparable ys"
  by (simp add: comparable_def)

lemma comparable_d3_max:
  "comparable (d3_max xs # ys) =
     (if comparable xs = [] then comparable ys else Max (set (comparable xs)) # comparable ys)"
  by (simp add: d3_max_Max comparable_simps)

lemma d3_max_nested:
  "d3_max (map (\<lambda>t. d3_max (f t)) ts) = d3_max (concat (map f ts))"
proof -
  have "comparable (map (\<lambda>t. d3_max (f t)) ts) = [] \<longleftrightarrow> comparable (concat (map f ts)) = []"
    by (induction ts) (simp_all add: comparable_simps comparable_d3_max comparable_append)
  moreover have "comparable (concat (map f ts)) \<noteq> [] \<Longrightarrow>
      Max (set (comparable (map (\<lambda>t. d3_max (f t)) ts))) = Max (set (comparable (concat (map f ts))))"
  proof (induction ts)
    case Nil
    then show ?case by simp
  next
    case (Cons t ts)
    have e: "comparable (map (\<lambda>t. d3_max (f t)) ts) = [] \<longleftrightarrow> comparable (concat (map f ts)) = []"
      by (induction ts) (simp_all add: comparable_simps comparable_d3_max comparable_append)
    show ?case
    proof (cases "comparable (f t) = []")
      case True
      with Cons show ?thesis by (simp add: comparable_d3_max comparable_append)
    next
      case False
      show ?thesis
      proof (cases "comparable (concat (map f ts)) = []")
        case True
        with False e show ?thesis by (simp add: comparable_d3_max comparable_append)
      next
        case F2: False
        with False e Cons.IH show ?thesis
          by (simp add: comparable_d3_max comparable_append Max_Un [of "set (comparable (f t))"])
      qed
    qed
  qed
  ultimately show ?thesis by (simp add: d3_max_Max)
qed

text \<open>
  Claim C6. For every dataset \<open>buildScales\<close> succeeds on, the domain it gives the value
  scale (before \<open>.nice()\<close>) is \<open>[0, |maxValue|]\<close>, where \<open>maxValue\<close> is the greatest numeric
  value of the samples (the upper bound is \<open>NaN\<close> when there is none): the lower bound is 0
  whatever the least value is, negative ones included. The rounded range is
  \<open>[chartHeight, 0]\<close>.
\<close>

theorem buildScales_value_scale:
  "\<exists>sc. buildScales (Some ts) chartWidth chartHeight colorSchema = Inr sc
     \<and> yScale_domain sc =
         (Num 0, if values_of ts = [] then NaN else Num \<bar>Max (set (values_of ts))\<bar>)
     \<and> yScale_rangeRound sc = (chartHeight, 0)"
proof -
  have b: "(if js_lt (math_abs minY) (Num 0) then math_abs minY else Num 0) = Num 0" for minY
    by (cases minY rule: math_abs.cases) simp_all
  have y: "d3_max (map (\<lambda>t. d3_max (map (\<lambda>d. Some (value d)) (dates t))) ts)
       = (if values_of ts = [] then None else Some (Num (Max (set (values_of ts)))))"
    unfolding values_of_def
    using d3_max_nested [of "\<lambda>t. map (\<lambda>d. Some (value d)) (dates t)" ts]
    by (simp only: d3_max_Max [of "concat (map (\<lambda>t. map (\<lambda>d. Some (value d)) (dates t)) ts)"])
  show ?thesis
    by (simp add: buildScales_def Let_def b y)
qed


theorem buildScales_value_scale_witness:
  "values_of [topic_between (-5) 3] = [-5, 3]
   \<and> (\<exists>sc. buildScales (Some [topic_between (-5) 3]) 860 400 [] = Inr sc
          \<and> yScale_domain sc = (Num 0, Num 3) \<and> yScale_rangeRound sc = (400, 0))
   \<and> values_of [topic_between (-5) (-2)] = [-5, -2]
   \<and> (\<exists>sc. buildScales (Some [topic_between (-5) (-2)]) 860 400 [] = Inr sc
          \<and> yScale_domain sc = (Num 0, Num 2) \<and> yScale_rangeRound sc = (400, 0))"
proof -
  have v: "values_of [topic_between (-5) 3] = [-5, 3]"
    "values_of [topic_between (-5) (-2)] = [-5, -2]"
    by (simp_all add: values_of_def comparable_def topic_between_def)
  show ?thesis
    using buildScales_value_scale [of "[topic_between (-5) 3]" 860 400 "[]"]
      buildScales_value_scale [of "[topic_between (-5) (-2)]" 860 400 "[]"]
    by (simp add: v)
qed

section \<open>The by-date index\<close>

lemma nest_add_map:
  "distinct ks \<Longrightarrow>
   nest_add k v (map (\<lambda>k'. (k', g k')) ks) =
     (if k \<in> set ks then map (\<lambda>k'. (k', if k' = k then g k' @ [v] else g k')) ks
      else map (\<lambda>k'. (k', g k')) ks @ [(k, [v])])"
  by (induction ks) auto

lemma nest_entries_snoc:
  "nest_entries f (xs @ [x]) = nest_add (f x) x (nest_entries f xs)"
  by (simp add: nest_entries_def)

lemma nest_entries_groups:
  "nest_entries f xs =
     map (\<lambda>k. (k, filter (\<lambda>x. f x = k) xs)) (rev (remdups (rev (map f xs))))"
proof (induction xs rule: rev_induct)
  case Nil
  then show ?case by (simp add: nest_entries_def)
next
  case (snoc x xs)
  let ?ks = "rev (remdups (rev (map f xs)))"
  have d: "distinct ?ks" by simp
  have s: "set ?ks = f ` set xs" by simp
  show ?case
  proof (cases "f x \<in> f ` set xs")
    case True
    then show ?thesis
      using nest_add_map [OF d, of "f x" x "\<lambda>k. filter (\<lambda>x. f x = k) xs"] s
      by (simp add: nest_entries_snoc snoc.IH)
  next
    case False
    then have e: "filter (\<lambda>y. f y = f x) xs = []"
      by (force simp: filter_empty_conv image_iff)
    have n: "\<And>k. k \<in> set ?ks \<Longrightarrow> f x \<noteq> k"
      using False s by auto
    from False show ?thesis
      using nest_add_map [OF d, of "f x" x "\<lambda>k. filter (\<lambda>x. f x = k) xs"] s n
      by (simp add: nest_entries_snoc snoc.IH e)
  qed
qed

lemma cleanData_byDate:
  "dataByDate (cleanData newDate s2n \<lparr>dataByTopic = Some ts, dataByDate = old\<rparr>) =
     Some (map (\<lambda>k. \<lparr>date = newDate k,
                      topics = map Some (filter (\<lambda>x. date x = k) (flatData_of ts))\<rparr>)
               (rev (remdups (rev (map date (flatData_of ts))))))"
  by (simp add: cleanData_def Let_def nest_entries_groups copyDate_def o_def)

text \<open>
  Claim C1, as the code has it. \<open>cleanData\<close> does not sort: the by-date index has one
  entry for each distinct raw date string of the samples, in the order in which the
  strings first appear (topic after topic, sample after sample); the entry holds the
  items with that string, and its date is the string parsed. The grouping is by equality
  of the raw strings.
\<close>

theorem cleanData_byDate_first_appearance:
  "(let keys = rev (remdups (rev (map date (flatData_of ts))))
    in dataByDate (cleanData newDate s2n \<lparr>dataByTopic = Some ts, dataByDate = old\<rparr>) =
         Some (map (\<lambda>k. \<lparr>date = newDate k,
                          topics = map Some (filter (\<lambda>x. date x = k) (flatData_of ts))\<rparr>) keys)
       \<and> distinct keys
       \<and> set keys = set (map date (flatData_of ts)))"
  by (simp add: cleanData_byDate Let_def)

text \<open>
  The claim as stated fails: samples given later date first come out later date first,
  and two spellings of one instant give two entries with the same date.
\<close>

theorem cleanData_byDate_unsorted:
  "map date (entries_of (cleanData exampleNewDate exampleToNumber dataset_descending)) =
     [Num 1577923200000, Num 1577836800000]
   \<and> \<not> sorted_wrt js_lt
         (map date (entries_of (cleanData exampleNewDate exampleToNumber dataset_descending)))
   \<and> map date (entries_of (cleanData exampleNewDate exampleToNumber dataset_same_instant)) =
     [Num 1577836800000, Num 1577836800000]
   \<and> \<not> distinct
         (map date (entries_of (cleanData exampleNewDate exampleToNumber dataset_same_instant)))"
  by (simp add: cleanData_def flatData_of_def nest_entries_def sample_def exampleNewDate_def
      copyDate_def entries_of_def dataset_descending_def dataset_same_instant_def)

section \<open>The two indices\<close>

lemma map_filter_Some: "List.map_filter (\<lambda>t. t) (map Some xs) = xs"
  by (induction xs) (simp_all add: List.map_filter_simps)

lemma cleanData_byTopic:
  "dataByTopic (cleanData newDate s2n \<lparr>dataByTopic = Some ts, dataByDate = old\<rparr>) =
     Some (map (\<lambda>kv. \<lparr>topicName = topicName kv, topic = topic kv,
                       dates = map (\<lambda>d. \<lparr>date = newDate (date d),
                                            value = unary_plus s2n (value d)\<rparr>) (dates kv)\<rparr>) ts)"
  by (simp add: cleanData_def Let_def)

lemma byTopic_triples_cleanData:
  "byTopic_triples (topics_of (cleanData newDate s2n \<lparr>dataByTopic = Some ts, dataByDate = old\<rparr>)) =
     map (triple_of newDate s2n) (flatData_of ts)"
  by (simp add: topics_of_def cleanData_byTopic byTopic_triples_def flatData_of_def
      triple_of_def map_concat o_def)

lemma entry_triples_group:
  "entry_triples s2n \<lparr>date = newDate k, topics = map Some (filter (\<lambda>x. date x = k) flat)\<rparr> =
     map (triple_of newDate s2n) (filter (\<lambda>x. date x = k) flat)"
  by (simp add: entry_triples_def map_filter_Some triple_of_def)

lemma distinct_filter_single:
  "distinct ks \<Longrightarrow> a \<in> set ks \<Longrightarrow> filter (\<lambda>k. k = a) ks = [a]"
  by (induction ks) (auto simp: filter_empty_conv)

lemma group_triples_set:
  assumes "set ks = f ` set xs"
  shows "set (concat (map (\<lambda>k. map g (filter (\<lambda>x. f x = k) xs)) ks)) = set (map g xs)"
proof -
  have "(\<Union>k\<in>set ks. g ` {x \<in> set xs. f x = k}) = g ` set xs"
    using assms by blast
  then show ?thesis by simp
qed

lemma group_triples_once:
  assumes d: "distinct ks" and s: "set ks = f ` set xs" and x: "x \<in> set xs"
    and inj: "\<And>y. y \<in> set xs \<Longrightarrow> g y = g x \<Longrightarrow> f y = f x"
  shows "length (filter (\<lambda>k. g x \<in> set (map g (filter (\<lambda>y. f y = k) xs))) ks) = 1"
proof -
  have "filter (\<lambda>k. g x \<in> set (map g (filter (\<lambda>y. f y = k) xs))) ks = filter (\<lambda>k. k = f x) ks"
  proof (rule filter_cong [OF refl])
    fix k assume "k \<in> set ks"
    show "(g x \<in> set (map g (filter (\<lambda>y. f y = k) xs))) = (k = f x)"
    proof
      assume "g x \<in> set (map g (filter (\<lambda>y. f y = k) xs))"
      then obtain y where y: "y \<in> set xs" "f y = k" "g y = g x" by auto
      with inj [of y] show "k = f x" by simp
    next
      assume "k = f x"
      with x show "g x \<in> set (map g (filter (\<lambda>y. f y = k) xs))" by simp
    qed
  qed
  moreover have "filter (\<lambda>k. k = f x) ks = [f x]"
    using d s x by (intro distinct_filter_single) auto
  ultimately show ?thesis by simp
qed

lemma group_triples_twice:
  assumes d: "distinct ks" and s: "set ks = f ` set xs"
    and x: "x \<in> set xs" and y: "y \<in> set xs" and g: "g y = g x" and n: "f y \<noteq> f x"
  shows "2 \<le> length (filter (\<lambda>k. g x \<in> set (map g (filter (\<lambda>z. f z = k) xs))) ks)"
proof -
  let ?P = "\<lambda>k. g x \<in> set (map g (filter (\<lambda>z. f z = k) xs))"
  have px: "?P (f x)" using x by simp
  have "g y \<in> set (map g (filter (\<lambda>z. f z = f y) xs))" using y by simp
  then have py: "?P (f y)" by (simp only: g)
  have sub: "{f x, f y} \<subseteq> {k. ?P k} \<inter> set ks"
    using px py x y s by blast
  have "card {f x, f y} \<le> card ({k. ?P k} \<inter> set ks)"
    by (rule card_mono [OF _ sub]) simp
  moreover have "card {f x, f y} = 2" using n by simp
  moreover have "length (filter ?P ks) = card ({k. ?P k} \<inter> set ks)"
    using d by (rule distinct_length_filter)
  ultimately show ?thesis by simp
qed

lemma group_length:
  assumes d: "distinct ks" and s: "f ` set xs \<subseteq> set ks"
  shows "length (concat (map (\<lambda>k. filter (\<lambda>x. f x = k) xs) ks)) = length xs"
  using s
proof (induction xs)
  case Nil
  then show ?case by (induction ks) simp_all
next
  case (Cons x xs)
  have one: "sum_list (map (\<lambda>k. if f x = k then 1 else 0) ks) = (1::nat)"
    if "f x \<in> set ks" "distinct ks" for ks
    using that by (induction ks) (auto simp: sum_list_0)
  have h: "length (filter (\<lambda>z. f z = k) (x # xs)) =
      (if f x = k then 1 else 0) + length (filter (\<lambda>z. f z = k) xs)" for k
    by simp
  have "length (concat (map (\<lambda>k. filter (\<lambda>z. f z = k) (x # xs)) ks)) =
      sum_list (map (\<lambda>k. (if f x = k then 1 else 0) + length (filter (\<lambda>z. f z = k) xs)) ks)"
    by (simp only: length_concat map_map o_def h)
  also have "\<dots> = sum_list (map (\<lambda>k. if f x = k then 1 else 0) ks) +
      sum_list (map (\<lambda>k. length (filter (\<lambda>z. f z = k) xs)) ks)"
    by (simp add: sum_list_addf)
  also have "\<dots> = 1 + length (concat (map (\<lambda>k. filter (\<lambda>z. f z = k) xs) ks))"
    using one [of ks] d Cons.prems by (simp add: length_concat o_def)
  also have "\<dots> = length (x # xs)"
    using Cons by simp
  finally show ?case .
qed

text \<open>
  Claim C5, as the code has it. For every dataset, after normalization the triples of the
  by-date entries are, as a set, the triples of the by-topic index (each direction of the
  round trip). Every triple of the by-topic index is in the topic list of exactly one
  by-date entry if and only if no two samples with the same triple have different raw
  date strings; this is so in particular when distinct raw date strings of the dataset
  parse to distinct dates.
\<close>

theorem cleanData_round_trip:
  "set (concat (map (entry_triples s2n)
            (entries_of (cleanData newDate s2n \<lparr>dataByTopic = Some ts, dataByDate = old\<rparr>)))) =
         set (byTopic_triples
            (topics_of (cleanData newDate s2n \<lparr>dataByTopic = Some ts, dataByDate = old\<rparr>)))
   \<and> (list_all (\<lambda>tr. length (filter (\<lambda>e. tr \<in> set (entry_triples s2n e))
            (entries_of (cleanData newDate s2n \<lparr>dataByTopic = Some ts, dataByDate = old\<rparr>))) = 1)
          (byTopic_triples
            (topics_of (cleanData newDate s2n \<lparr>dataByTopic = Some ts, dataByDate = old\<rparr>)))
        \<longleftrightarrow> (\<forall>x \<in> set (flatData_of ts). \<forall>y \<in> set (flatData_of ts).
               triple_of newDate s2n y = triple_of newDate s2n x \<longrightarrow> date y = date x))
   \<and> (inj_on newDate (set (map date (flatData_of ts)))
        \<longrightarrow> list_all (\<lambda>tr. length (filter (\<lambda>e. tr \<in> set (entry_triples s2n e))
            (entries_of (cleanData newDate s2n \<lparr>dataByTopic = Some ts, dataByDate = old\<rparr>))) = 1)
          (byTopic_triples
            (topics_of (cleanData newDate s2n \<lparr>dataByTopic = Some ts, dataByDate = old\<rparr>))))"
proof -
  define flat where "flat = flatData_of ts"
  define keys where "keys = rev (remdups (rev (map date flat)))"
  define T where "T = triple_of newDate s2n"
  define out where "out = cleanData newDate s2n \<lparr>dataByTopic = Some ts, dataByDate = old\<rparr>"
  define once where "once = list_all
      (\<lambda>tr. length (filter (\<lambda>e. tr \<in> set (entry_triples s2n e)) (entries_of out)) = 1)
      (byTopic_triples (topics_of out))"
  define same where "same = (\<forall>x \<in> set flat. \<forall>y \<in> set flat. T y = T x \<longrightarrow> date y = date x)"
  have d: "distinct keys" and s: "set keys = date ` set flat"
    by (simp_all add: keys_def)
  have bd: "entries_of out =
      map (\<lambda>k. \<lparr>date = newDate k, topics = map Some (filter (\<lambda>x. date x = k) flat)\<rparr>) keys"
    by (simp add: out_def entries_of_def cleanData_byDate flat_def keys_def)
  have tr: "map (entry_triples s2n) (entries_of out) =
      map (\<lambda>k. map T (filter (\<lambda>x. date x = k) flat)) keys"
    by (simp add: bd entry_triples_group o_def T_def)
  have bt: "byTopic_triples (topics_of out) = map T flat"
    unfolding out_def T_def flat_def by (rule byTopic_triples_cleanData)
  have one: "set (concat (map (entry_triples s2n) (entries_of out))) =
      set (byTopic_triples (topics_of out))"
    unfolding tr bt by (rule group_triples_set [OF s])
  have cnt: "length (filter (\<lambda>e. T x \<in> set (entry_triples s2n e)) (entries_of out)) =
      length (filter (\<lambda>k. T x \<in> set (map T (filter (\<lambda>y. date y = k) flat))) keys)" for x
    by (simp only: bd filter_map o_def length_map entry_triples_group T_def)
  have once_iff: "once \<longleftrightarrow> (\<forall>x \<in> set flat.
      length (filter (\<lambda>k. T x \<in> set (map T (filter (\<lambda>y. date y = k) flat))) keys) = 1)"
    unfolding once_def bt by (simp add: list_all_iff cnt)
  have two: "once \<longleftrightarrow> same"
  proof
    assume o: once
    show same
      unfolding same_def
    proof (intro ballI impI)
      fix x y assume x: "x \<in> set flat" and y: "y \<in> set flat" and e: "T y = T x"
      show "date y = date x"
      proof (rule ccontr)
        assume "date y \<noteq> date x"
        with d s x y e
        have "2 \<le> length (filter (\<lambda>k. T x \<in> set (map T (filter (\<lambda>z. date z = k) flat))) keys)"
          by (rule group_triples_twice)
        moreover have
          "length (filter (\<lambda>k. T x \<in> set (map T (filter (\<lambda>z. date z = k) flat))) keys) = 1"
          using o x by (simp add: once_iff)
        ultimately show False by simp
      qed
    qed
  next
    assume sm: same
    have "length (filter (\<lambda>k. T x \<in> set (map T (filter (\<lambda>y. date y = k) flat))) keys) = 1"
      if x: "x \<in> set flat" for x
    proof -
      have i: "date y = date x" if "y \<in> set flat" "T y = T x" for y
        using sm x that unfolding same_def by blast
      show ?thesis using d s x i by (rule group_triples_once)
    qed
    then show once by (simp add: once_iff)
  qed
  have three: once if inj: "inj_on newDate (set (map date flat))"
  proof -
    have same
      unfolding same_def
    proof (intro ballI impI)
      fix x y assume x: "x \<in> set flat" and y: "y \<in> set flat" and e: "T y = T x"
      then have "newDate (date y) = newDate (date x)" by (simp add: T_def triple_of_def)
      with inj x y show "date y = date x" by (simp add: inj_on_def)
    qed
    with two show ?thesis by simp
  qed
  have "set (concat (map (entry_triples s2n) (entries_of out))) =
         set (byTopic_triples (topics_of out))
      \<and> (once \<longleftrightarrow> same) \<and> (inj_on newDate (set (map date flat)) \<longrightarrow> once)"
    by (intro conjI impI one two three)
  then show ?thesis
    unfolding once_def same_def out_def flat_def T_def .
qed

theorem cleanData_round_trip_witness:
  "set (concat (map (entry_triples exampleToNumber)
            (entries_of (cleanData exampleNewDate exampleToNumber dataset_two_topics)))) =
         set (byTopic_triples
            (topics_of (cleanData exampleNewDate exampleToNumber dataset_two_topics)))
   \<and> list_all (\<lambda>tr. length (filter (\<lambda>e. tr \<in> set (entry_triples exampleToNumber e))
            (entries_of (cleanData exampleNewDate exampleToNumber dataset_two_topics))) = 1)
          (byTopic_triples
            (topics_of (cleanData exampleNewDate exampleToNumber dataset_two_topics)))
   \<and> inj_on exampleNewDate (set (map date (flatData_of (topics_of dataset_two_topics))))
   \<and> map (entry_triples exampleToNumber)
         (entries_of (cleanData exampleNewDate exampleToNumber dataset_two_topics)) =
       [[(1, Num 1577836800000, Num 1), (2, Num 1577836800000, Num 2)],
        [(1, Num 1577923200000, Num 3)]]
   \<and> byTopic_triples
         (topics_of (cleanData exampleNewDate exampleToNumber dataset_two_topics)) =
       [(1, Num 1577836800000, Num 1), (1, Num 1577923200000, Num 3),
        (2, Num 1577836800000, Num 2)]"
proof -
  have i: "inj_on exampleNewDate (set (map date (flatData_of (topics_of dataset_two_topics))))"
    by (auto simp: inj_on_def topics_of_def dataset_two_topics_def flatData_of_def sample_def
        exampleNewDate_def)
  have e: "map (entry_triples exampleToNumber)
         (entries_of (cleanData exampleNewDate exampleToNumber dataset_two_topics)) =
       [[(1, Num 1577836800000, Num 1), (2, Num 1577836800000, Num 2)],
        [(1, Num 1577923200000, Num 3)]]"
    by (simp add: cleanData_def flatData_of_def nest_entries_def sample_def exampleNewDate_def
        copyDate_def entries_of_def dataset_two_topics_def entry_triples_def
        List.map_filter_simps)
  have b: "byTopic_triples
         (topics_of (cleanData exampleNewDate exampleToNumber dataset_two_topics)) =
       [(1, Num 1577836800000, Num 1), (1, Num 1577923200000, Num 3),
        (2, Num 1577836800000, Num 2)]"
    by (simp add: cleanData_def flatData_of_def sample_def exampleNewDate_def
        topics_of_def dataset_two_topics_def byTopic_triples_def)
  have d: "dataset_two_topics =
      \<lparr>dataByTopic = Some (topics_of dataset_two_topics), dataByDate = None\<rparr>"
    by (simp add: dataset_two_topics_def topics_of_def)
  have t: "set (concat (map (entry_triples exampleToNumber)
            (entries_of (cleanData exampleNewDate exampleToNumber dataset_two_topics)))) =
         set (byTopic_triples
            (topics_of (cleanData exampleNewDate exampleToNumber dataset_two_topics)))
     \<and> list_all (\<lambda>tr. length (filter (\<lambda>e. tr \<in> set (entry_triples exampleToNumber e))
            (entries_of (cleanData exampleNewDate exampleToNumber dataset_two_topics))) = 1)
          (byTopic_triples
            (topics_of (cleanData exampleNewDate exampleToNumber dataset_two_topics)))"
  proof -
    note r = cleanData_round_trip [of exampleToNumber exampleNewDate
        "topics_of dataset_two_topics" None, unfolded d [symmetric]]
    show ?thesis
      using conjunct1 [OF r] mp [OF conjunct2 [OF conjunct2 [OF r]] i] by (rule conjI)
  qed
  show ?thesis
    by (intro conjI conjunct1 [OF t] conjunct2 [OF t] i e b)
qed

text \<open>
  The claim as stated fails where two raw date strings denote the same instant: the
  entries are grouped by the strings, and a triple is then in two entries.
\<close>

theorem cleanData_same_instant_twice:
  "byTopic_triples (topics_of (cleanData exampleNewDate exampleToNumber dataset_same_instant)) =
     [(1, Num 1577836800000, Num 1), (1, Num 1577836800000, Num 1)]
   \<and> map (entry_triples exampleToNumber)
         (entries_of (cleanData exampleNewDate exampleToNumber dataset_same_instant)) =
       [[(1, Num 1577836800000, Num 1)], [(1, Num 1577836800000, Num 1)]]
   \<and> length (filter (\<lambda>e. (1, Num 1577836800000, Num 1) \<in> set (entry_triples exampleToNumber e))
         (entries_of (cleanData exampleNewDate exampleToNumber dataset_same_instant))) = 2"
  by (simp add: cleanData_def flatData_of_def nest_entries_def sample_def exampleNewDate_def
      copyDate_def entries_of_def topics_of_def dataset_same_instant_def entry_triples_def
      byTopic_triples_def List.map_filter_simps)

section \<open>Unparsable fields\<close>

text \<open>
  Claim C4, as the code has it. \<open>cleanData\<close> has no failure: for every dataset with topics
  it returns both indices. The by-topic index keeps every topic and every sample, the date
  of a sample being what \<open>new Date\<close> gives for the raw string (Invalid Date when it cannot
  be parsed) and the value what unary plus gives (\<open>NaN\<close> when it cannot be converted). The
  by-date index has an entry for each raw date string, and the items of its entries are
  the samples of the dataset, each once. \<open>exports\<close> goes on to build the scales.
\<close>

theorem cleanData_never_fails:
  "cleanData newDate s2n \<lparr>dataByTopic = Some ts, dataByDate = old\<rparr> =
     \<lparr>dataByTopic =
        Some (map (\<lambda>kv. \<lparr>topicName = topicName kv, topic = topic kv,
                          dates = map (\<lambda>d. \<lparr>date = newDate (date d),
                                               value = unary_plus s2n (value d)\<rparr>) (dates kv)\<rparr>) ts),
      dataByDate =
        Some (map (\<lambda>k. \<lparr>date = newDate k,
                         topics = map Some (filter (\<lambda>x. date x = k) (flatData_of ts))\<rparr>)
                  (rev (remdups (rev (map date (flatData_of ts))))))\<rparr>
   \<and> set (concat (map (\<lambda>e. List.map_filter (\<lambda>t. t) (topics e))
          (entries_of (cleanData newDate s2n \<lparr>dataByTopic = Some ts, dataByDate = old\<rparr>)))) =
       set (flatData_of ts)
   \<and> length (concat (map (\<lambda>e. List.map_filter (\<lambda>t. t) (topics e))
          (entries_of (cleanData newDate s2n \<lparr>dataByTopic = Some ts, dataByDate = old\<rparr>)))) =
       length (flatData_of ts)
   \<and> (\<exists>sc. snd (exports_head newDate s2n width height margin colorSchema
                 \<lparr>dataByTopic = Some ts, dataByDate = old\<rparr>) = Inr sc)"
proof -
  define flat where "flat = flatData_of ts"
  define keys where "keys = rev (remdups (rev (map date flat)))"
  define out where "out = cleanData newDate s2n \<lparr>dataByTopic = Some ts, dataByDate = old\<rparr>"
  have d: "distinct keys" and s: "set keys = date ` set flat"
    by (simp_all add: keys_def)
  have c: "out =
     \<lparr>dataByTopic =
        Some (map (\<lambda>kv. \<lparr>topicName = topicName kv, topic = topic kv,
                          dates = map (\<lambda>d. \<lparr>date = newDate (date d),
                                               value = unary_plus s2n (value d)\<rparr>) (dates kv)\<rparr>) ts),
      dataByDate =
        Some (map (\<lambda>k. \<lparr>date = newDate k,
                         topics = map Some (filter (\<lambda>x. date x = k) flat)\<rparr>) keys)\<rparr>"
    using cleanData_byDate [of newDate s2n ts old] cleanData_byTopic [of newDate s2n ts old]
    by (simp add: out_def keys_def flat_def)
  have it: "map (\<lambda>e. List.map_filter (\<lambda>t. t) (topics e)) (entries_of out) =
      map (\<lambda>k. filter (\<lambda>x. date x = k) flat) keys"
    by (simp add: c entries_of_def o_def map_filter_Some)
  have st: "set (concat (map (\<lambda>e. List.map_filter (\<lambda>t. t) (topics e)) (entries_of out))) =
      set flat"
    unfolding it using group_triples_set [OF s, of "\<lambda>x. x"] by simp
  have ln: "length (concat (map (\<lambda>e. List.map_filter (\<lambda>t. t) (topics e)) (entries_of out))) =
      length flat"
    unfolding it using d s by (intro group_length) auto
  have sc: "\<exists>sc. snd (exports_head newDate s2n width height margin colorSchema
             \<lparr>dataByTopic = Some ts, dataByDate = old\<rparr>) = Inr sc"
    by (simp add: exports_head_def Let_def c [unfolded out_def] buildScales_def)
  show ?thesis
    by (intro conjI c [unfolded out_def keys_def flat_def]
        st [unfolded out_def flat_def] ln [unfolded out_def flat_def] sc)
qed

text \<open>
  The claim as stated fails: a dataset with an unparsable date and an unparsable value is
  normalized and returned, and the scales are built.
\<close>

theorem cleanData_malformed_returns:
  "exports_head exampleNewDate exampleToNumber 960 500 defaultMargin [''#6aedc7'', ''#39c2c9'']
      dataset_malformed =
   (\<lparr>dataByTopic = Some [\<lparr>topicName = ''A'', topic = 1,
                           dates = [\<lparr>date = NaN, value = Num 1\<rparr>,
                                    \<lparr>date = Num 1577836800000, value = NaN\<rparr>]\<rparr>],
     dataByDate = Some [\<lparr>date = NaN,
                          topics = [Some \<lparr>date = ''not a date'', value = RNum (Num 1),
                                          itemTopicName = ''A'', name = 1\<rparr>]\<rparr>,
                        \<lparr>date = Num 1577836800000,
                          topics = [Some \<lparr>date = ''2020-01-01'', value = RStr ''abc'',
                                          itemTopicName = ''A'', name = 1\<rparr>]\<rparr>]\<rparr>,
    Inr \<lparr>xScale_domain = (Some (Num 1577836800000), Some (Num 1577836800000)),
         xScale_rangeRound = (0, 860),
         yScale_domain = (Num 0, Num 1),
         yScale_rangeRound = (400, 0),
         colorScale_domain = [1],
         colorScale_range = [''#6aedc7'', ''#39c2c9''],
         topicColorMap = [(1, Some ''#6aedc7'')]\<rparr>)"
  by (simp add: exports_head_def cleanData_def flatData_of_def nest_entries_def sample_def
      exampleNewDate_def exampleToNumber_def copyDate_def dataset_malformed_def
      buildScales_def defaultMargin_def ordinal_domain_def nth_opt_def Let_def)

section \<open>The empty dataset\<close>

text \<open>
  Claim C8, as the code has it. For a dataset with an empty list of topics both indices
  are empty and \<open>buildScales\<close> succeeds: the time scale has no domain bounds, the value
  scale has the domain \<open>[0, NaN]\<close>, and the ranges are the configured ones,
  \<open>[0, chartWidth]\<close> and \<open>[chartHeight, 0]\<close>.
\<close>

theorem empty_dataset_scales:
  "cleanData newDate s2n \<lparr>dataByTopic = Some [], dataByDate = old\<rparr> =
     \<lparr>dataByTopic = Some [], dataByDate = Some []\<rparr>
   \<and> buildScales (Some []) chartWidth chartHeight colorSchema =
     Inr \<lparr>xScale_domain = (None, None),
          xScale_rangeRound = (0, chartWidth),
          yScale_domain = (Num 0, NaN),
          yScale_rangeRound = (chartHeight, 0),
          colorScale_domain = [],
          colorScale_range = colorSchema,
          topicColorMap = []\<rparr>"
  by (simp add: cleanData_def flatData_of_def nest_entries_def buildScales_def
      ordinal_domain_def Let_def)

text \<open>
  The claim as stated fails: without \<open>dataByTopic\<close> the indices stay \<open>undefined\<close> and
  \<open>buildScales\<close> throws; with the empty list and the default size the ranges are
  \<open>[0, 860]\<close> and \<open>[400, 0]\<close>, not of width or height zero.
\<close>

theorem absent_dataset_fails:
  "exports_head exampleNewDate exampleToNumber 960 500 defaultMargin [''#6aedc7'', ''#39c2c9'']
      \<lparr>dataByTopic = None, dataByDate = None\<rparr> =
     (\<lparr>dataByTopic = None, dataByDate = None\<rparr>, Inl TypeError)
   \<and> snd (exports_head exampleNewDate exampleToNumber 960 500 defaultMargin
            [''#6aedc7'', ''#39c2c9''] \<lparr>dataByTopic = Some [], dataByDate = None\<rparr>) =
     Inr \<lparr>xScale_domain = (None, None),
          xScale_rangeRound = (0, 860),
          yScale_domain = (Num 0, NaN),
          yScale_rangeRound = (400, 0),
          colorScale_domain = [],
          colorScale_range = [''#6aedc7'', ''#39c2c9''],
          topicColorMap = []\<rparr>"
  by (simp add: exports_head_def cleanData_def flatData_of_def nest_entries_def
      buildScales_def defaultMargin_def ordinal_domain_def Let_def)


section \<open>The nearest data point\<close>

text \<open>
  On an index whose dates are valid and ascending, the bisection between \<open>lo\<close> and \<open>hi\<close>
  returns the insertion point of the query date: the dates before it are earlier than
  the query, the dates from it on are not.
\<close>

lemma bisector_left_sorted:
  assumes ft: "map f a = map Num ts" and st: "sorted ts"
  shows "lo \<le> hi \<Longrightarrow> hi \<le> length a \<Longrightarrow>
         lo \<le> bisector_left f a (Num q) lo hi
       \<and> bisector_left f a (Num q) lo hi \<le> hi
       \<and> (\<forall>j. lo \<le> j \<and> j < bisector_left f a (Num q) lo hi \<longrightarrow> ts ! j < q)
       \<and> (\<forall>j. bisector_left f a (Num q) lo hi \<le> j \<and> j < hi \<longrightarrow> q \<le> ts ! j)"
proof (induction "hi - lo" arbitrary: lo hi rule: less_induct)
  case less
  have len: "length ts = length a"
    using ft by (metis length_map)
  show ?case
  proof (cases "lo < hi")
    case False
    with less.prems have "bisector_left f a (Num q) lo hi = lo"
      by (subst bisector_left.simps) simp
    with False less.prems show ?thesis by auto
  next
    case True
    define mid where "mid = (lo + hi) div 2"
    have m: "lo \<le> mid" "mid < hi" using True by (auto simp: mid_def)
    have "f (a ! mid) = map f a ! mid"
      using m less.prems by simp
    then have fm: "f (a ! mid) = Num (ts ! mid)"
      using m less.prems len by (simp add: ft)
    show ?thesis
    proof (cases "ts ! mid < q")
      case lt: True
      have eq: "bisector_left f a (Num q) lo hi = bisector_left f a (Num q) (mid + 1) hi"
        using True lt fm by (subst bisector_left.simps) (simp add: mid_def Let_def)
      have IH: "mid + 1 \<le> bisector_left f a (Num q) (mid + 1) hi
         \<and> bisector_left f a (Num q) (mid + 1) hi \<le> hi
         \<and> (\<forall>j. mid + 1 \<le> j \<and> j < bisector_left f a (Num q) (mid + 1) hi \<longrightarrow> ts ! j < q)
         \<and> (\<forall>j. bisector_left f a (Num q) (mid + 1) hi \<le> j \<and> j < hi \<longrightarrow> q \<le> ts ! j)"
        using m less.prems by (intro less.hyps) auto
      have low: "ts ! j < q" if "j \<le> mid" for j
      proof -
        have "ts ! j \<le> ts ! mid"
          using st that m less.prems len by (simp add: sorted_nth_mono)
        with lt show ?thesis by simp
      qed
      have "ts ! j < q" if "lo \<le> j" "j < bisector_left f a (Num q) (mid + 1) hi" for j
        using that IH low [of j] by (cases "j \<le> mid") auto
      with IH m show ?thesis
        unfolding eq by auto
    next
      case ge: False
      have eq: "bisector_left f a (Num q) lo hi = bisector_left f a (Num q) lo mid"
        using True ge fm by (subst bisector_left.simps) (simp add: mid_def Let_def)
      have IH: "lo \<le> bisector_left f a (Num q) lo mid
         \<and> bisector_left f a (Num q) lo mid \<le> mid
         \<and> (\<forall>j. lo \<le> j \<and> j < bisector_left f a (Num q) lo mid \<longrightarrow> ts ! j < q)
         \<and> (\<forall>j. bisector_left f a (Num q) lo mid \<le> j \<and> j < mid \<longrightarrow> q \<le> ts ! j)"
        using m less.prems by (intro less.hyps) auto
      have high: "q \<le> ts ! j" if "mid \<le> j" "j < hi" for j
      proof -
        have "ts ! mid \<le> ts ! j"
          using st that m less.prems len by (simp add: sorted_nth_mono)
        with ge show ?thesis by simp
      qed
      have "q \<le> ts ! j" if "bisector_left f a (Num q) lo mid \<le> j" "j < hi" for j
        using that IH high [of j] by (cases "mid \<le> j") auto
      with IH m show ?thesis
        unfolding eq by auto
    qed
  qed
qed

lemma bisector_left_NaN: "bisector_left f a NaN lo hi = lo"
proof (induction "hi - lo" arbitrary: hi rule: less_induct)
  case less
  show ?case
  proof (cases "lo < hi")
    case True
    then have "bisector_left f a NaN lo hi = bisector_left f a NaN lo ((lo + hi) div 2)"
      by (subst bisector_left.simps) (simp add: Let_def)
    also have "\<dots> = lo"
      using True by (intro less.hyps) auto
    finally show ?thesis .
  next
    case False
    then show ?thesis by (subst bisector_left.simps) simp
  qed
qed


lemma date_nth:
  assumes "map date entries = map Num ts" and "j < length entries"
  shows "date (entries ! j) = Num (ts ! j)"
proof -
  have "date (entries ! j) = map date entries ! j" using assms(2) by simp
  also have "\<dots> = Num (ts ! j)"
    using assms by (metis length_map nth_map)
  finally show ?thesis .
qed

text \<open>
  Claim C2, as the code has it. On an index sorted ascending, whenever there is an entry
  at the index \<open>i\<close> the bisection (started at 1) returns, the lookup compares it with the
  entry before it and returns the one strictly closer in time to the query date, the
  earlier entry when both are equally far; \<open>i\<close> is the insertion point of the query date
  among the entries from the second on.
\<close>

theorem getNearestDataPoint_closer:
  assumes dt: "map date entries = map Num ts" and st: "sorted ts"
    and x0: "invert mouseX = Num q"
    and i: "i = bisector_left date entries (Num q) 1 (length entries)"
    and il: "i < length entries"
  shows "getNearestDataPoint invert entries mouseX =
           Some (if \<bar>ts ! i - q\<bar> < \<bar>q - ts ! (i - 1)\<bar> then i else i - 1)
       \<and> 1 \<le> i
       \<and> (\<forall>j. 1 \<le> j \<and> j < i \<longrightarrow> ts ! j < q)
       \<and> (\<forall>j. i \<le> j \<and> j < length ts \<longrightarrow> q \<le> ts ! j)"
proof -
  have len: "length ts = length entries" using dt by (metis length_map)
  have l1: "1 \<le> length entries"
  proof (rule ccontr)
    assume "\<not> 1 \<le> length entries"
    then have "entries = []" by (cases entries) simp_all
    then have "i = 1" unfolding i by (subst bisector_left.simps) simp
    with il \<open>entries = []\<close> show False by simp
  qed
  have b: "1 \<le> i \<and> i \<le> length entries
       \<and> (\<forall>j. 1 \<le> j \<and> j < i \<longrightarrow> ts ! j < q)
       \<and> (\<forall>j. i \<le> j \<and> j < length entries \<longrightarrow> q \<le> ts ! j)"
    unfolding i using bisector_left_sorted [OF dt st l1 le_refl, of q] .
  have cur: "date (entries ! i) = Num (ts ! i)" using dt il by (rule date_nth)
  have prev: "date (entries ! (i - 1)) = Num (ts ! (i - 1))"
    using dt il by (intro date_nth) auto
  have c: "q \<le> ts ! i" using b il by auto
  have p: "ts ! (i - 1) \<le> ts ! i"
    using st il len by (simp add: sorted_nth_mono)
  have cmp: "(q - ts ! i > ts ! (i - 1) - q) = (\<bar>ts ! i - q\<bar> < \<bar>q - ts ! (i - 1)\<bar>)"
    using c p by (cases "ts ! (i - 1) \<le> q") auto
  have i': "bisector_left date entries (Num q) (Suc 0) (length entries) = i"
    using i by simp
  have "getNearestDataPoint invert entries mouseX =
      Some (findOutNearestDate entries (Num q) i (i - 1))"
  proof -
    have "i - Suc 0 < length entries" using il by simp
    with il show ?thesis
      by (simp add: getNearestDataPoint_def Let_def x0 i' array_ref_def)
  qed
  also have "findOutNearestDate entries (Num q) i (i - 1) =
      (if \<bar>ts ! i - q\<bar> < \<bar>q - ts ! (i - 1)\<bar> then i else i - 1)"
    using cur prev cmp by (simp add: findOutNearestDate_def copyDate_def)
  finally show ?thesis using b len by simp
qed

theorem getNearestDataPoint_closer_witness:
  "map date [entry_at 10, entry_at 20, entry_at 40] = map Num [10, 20, 40]
   \<and> sorted [10, 20, 40 :: int]
   \<and> identity_invert 15 = Num 15
   \<and> bisector_left date [entry_at 10, entry_at 20, entry_at 40] (Num 15) 1
         (length [entry_at 10, entry_at 20, entry_at 40]) = 1
   \<and> getNearestDataPoint identity_invert [entry_at 10, entry_at 20, entry_at 40] 15 = Some 0"
proof -
  have b: "bisector_left date [entry_at 10, entry_at 20, entry_at 40] (Num 15) 1
      (length [entry_at 10, entry_at 20, entry_at 40]) = 1"
    by (simp add: bisector_left.simps entry_at_def)
  have h: "map date [entry_at 10, entry_at 20, entry_at 40] = map Num [10, 20, 40]"
    "sorted [10, 20, 40 :: int]" "identity_invert 15 = Num 15"
    by (simp_all add: entry_at_def identity_invert_def)
  show ?thesis
  proof -
    have i: "1 = bisector_left date [entry_at 10, entry_at 20, entry_at 40] (Num 15) 1
        (length [entry_at 10, entry_at 20, entry_at 40])"
      using b by (rule sym)
    have il: "1 < length [entry_at 10, entry_at 20, entry_at 40]"
      by simp
    have "getNearestDataPoint identity_invert [entry_at 10, entry_at 20, entry_at 40] 15 =
        Some (if \<bar>[10, 20, 40] ! 1 - 15\<bar> < \<bar>15 - [10, 20, 40 :: int] ! (1 - 1)\<bar> then 1 else 1 - 1)"
      using getNearestDataPoint_closer [where invert = identity_invert and mouseX = 15
          and q = 15, OF h(1) h(2) h(3) i il]
      by (rule conjunct1)
    then show ?thesis using b h by simp
  qed
qed

text \<open>
  The claim as stated fails for the queries with no entry at the bisection index: on an
  index of one entry (every query) and past the last date the lookup compares nothing and
  returns \<open>undefined\<close>.
\<close>

theorem getNearestDataPoint_nothing_to_compare:
  "bisector_left date [entry_at 10] (Num 10) 1 (length [entry_at 10]) = 1
   \<and> getNearestDataPoint identity_invert [entry_at 10] 10 = None
   \<and> getNearestDataPoint identity_invert [entry_at 10, entry_at 20, entry_at 40] 45 = None"
  by (simp add: getNearestDataPoint_def bisector_left.simps entry_at_def identity_invert_def
      array_ref_def)

text \<open>
  Claim C3, as the code has it. On the empty index every query returns \<open>undefined\<close>. On a
  sorted index of at least two entries, a query before the first date returns the first
  entry. On a sorted non-empty index, a query after the last date returns \<open>undefined\<close>.
\<close>

theorem getNearestDataPoint_ends:
  "(getNearestDataPoint invert [] mouseX = None)
   \<and> (map date entries = map Num ts \<and> sorted ts \<and> invert mouseX = Num q \<and>
        2 \<le> length entries \<and> q < ts ! 0
      \<longrightarrow> getNearestDataPoint invert entries mouseX = Some 0)
   \<and> (map date entries = map Num ts \<and> sorted ts \<and> invert mouseX = Num q \<and>
        entries \<noteq> [] \<and> last ts < q
      \<longrightarrow> getNearestDataPoint invert entries mouseX = None)"
proof (intro conjI impI)
  have "bisector_left date [] x 1 0 = 1" for x :: js_date
    by (subst bisector_left.simps) simp
  then show "getNearestDataPoint invert [] mouseX = None"
    by (simp add: getNearestDataPoint_def array_ref_def)
next
  assume a: "map date entries = map Num ts \<and> sorted ts \<and> invert mouseX = Num q \<and>
        2 \<le> length entries \<and> q < ts ! 0"
  then have dt: "map date entries = map Num ts" and st: "sorted ts"
    and x0: "invert mouseX = Num q" and l2: "2 \<le> length entries" and q: "q < ts ! 0"
    by simp_all
  have len: "length ts = length entries" using dt by (metis length_map)
  define i where "i = bisector_left date entries (Num q) 1 (length entries)"
  have l1: "1 \<le> length entries" using l2 by simp
  have b: "1 \<le> i \<and> i \<le> length entries
       \<and> (\<forall>j. 1 \<le> j \<and> j < i \<longrightarrow> ts ! j < q)
       \<and> (\<forall>j. i \<le> j \<and> j < length entries \<longrightarrow> q \<le> ts ! j)"
    unfolding i_def using bisector_left_sorted [OF dt st l1 le_refl, of q] .
  have "i = 1"
  proof (rule ccontr)
    assume "i \<noteq> 1"
    with b have "1 < i" by simp
    with b have "ts ! 1 < q" by simp
    moreover have "ts ! 0 \<le> ts ! 1" using st l2 len by (simp add: sorted_nth_mono)
    ultimately show False using q by simp
  qed
  have cur: "date (entries ! 1) = Num (ts ! 1)" using dt l2 by (intro date_nth) auto
  have prev: "date (entries ! 0) = Num (ts ! 0)" using dt l2 by (intro date_nth) auto
  have "ts ! 0 \<le> ts ! 1" using st l2 len by (simp add: sorted_nth_mono)
  with q have "\<not> q - ts ! 1 > ts ! 0 - q" by simp
  then have "findOutNearestDate entries (Num q) 1 0 = 0"
    using cur prev by (simp add: findOutNearestDate_def copyDate_def)
  moreover have "bisector_left date entries (Num q) (Suc 0) (length entries) = Suc 0"
    using \<open>i = 1\<close> by (simp add: i_def)
  moreover have "Suc 0 < length entries" "entries \<noteq> []" using l2 by auto
  ultimately show "getNearestDataPoint invert entries mouseX = Some 0"
    by (simp add: getNearestDataPoint_def Let_def x0 array_ref_def)
next
  assume a: "map date entries = map Num ts \<and> sorted ts \<and> invert mouseX = Num q \<and>
        entries \<noteq> [] \<and> last ts < q"
  then have dt: "map date entries = map Num ts" and st: "sorted ts"
    and x0: "invert mouseX = Num q" and ne: "entries \<noteq> []" and q: "last ts < q"
    by simp_all
  have len: "length ts = length entries" using dt by (metis length_map)
  define i where "i = bisector_left date entries (Num q) 1 (length entries)"
  have l1: "1 \<le> length entries" using ne by (cases entries) simp_all
  have b: "1 \<le> i \<and> i \<le> length entries
       \<and> (\<forall>j. 1 \<le> j \<and> j < i \<longrightarrow> ts ! j < q)
       \<and> (\<forall>j. i \<le> j \<and> j < length entries \<longrightarrow> q \<le> ts ! j)"
    unfolding i_def using bisector_left_sorted [OF dt st l1 le_refl, of q] .
  have "i = length entries"
  proof (rule ccontr)
    assume "i \<noteq> length entries"
    with b have il: "i < length entries" by simp
    with b have "q \<le> ts ! i" by simp
    moreover have "ts ! i \<le> last ts"
    proof -
      have "ts \<noteq> []" using len ne by auto
      then have "last ts = ts ! (length ts - 1)" by (rule last_conv_nth)
      moreover have "ts ! i \<le> ts ! (length ts - 1)"
        using st il len by (intro sorted_nth_mono) auto
      ultimately show ?thesis by simp
    qed
    ultimately show False using q by simp
  qed
  then have "bisector_left date entries (Num q) (Suc 0) (length entries) = length entries"
    by (simp add: i_def)
  then show "getNearestDataPoint invert entries mouseX = None"
    by (simp add: getNearestDataPoint_def Let_def x0 array_ref_def)
qed


theorem getNearestDataPoint_ends_witness:
  "getNearestDataPoint identity_invert [] 15 = None
   \<and> getNearestDataPoint identity_invert [entry_at 10, entry_at 20] 5 = Some 0
   \<and> getNearestDataPoint identity_invert [entry_at 10, entry_at 20] 25 = None"
  using getNearestDataPoint_ends [where invert = identity_invert and mouseX = 5
      and entries = "[entry_at 10, entry_at 20]" and ts = "[10, 20]" and q = 5]
    getNearestDataPoint_ends [where invert = identity_invert and mouseX = 25
      and entries = "[entry_at 10, entry_at 20]" and ts = "[10, 20]" and q = 25]
    getNearestDataPoint_ends [where invert = identity_invert and mouseX = 15]
  by (simp add: entry_at_def identity_invert_def)

text \<open>
  The claim as stated fails: past the last date of a non-empty index the lookup returns
  \<open>undefined\<close>, not the last entry, and on an index of one entry it returns \<open>undefined\<close> on
  either side.
\<close>

theorem getNearestDataPoint_past_the_end:
  "getNearestDataPoint identity_invert [entry_at 10, entry_at 20] 25 = None
   \<and> getNearestDataPoint identity_invert [entry_at 10] 5 = None
   \<and> getNearestDataPoint identity_invert [entry_at 10] 15 = None"
  by (simp add: getNearestDataPoint_def bisector_left.simps entry_at_def identity_invert_def
      array_ref_def)

section \<open>The mouse-move handler\<close>

lemma highlightDataPoints_frame:
  "dispatched (highlightDataPoints arraySort p st) = dispatched st"
  "verticalMarkerX (highlightDataPoints arraySort p st) = verticalMarkerX st"
  "colorMap (highlightDataPoints arraySort p st) = colorMap st"
  by (simp_all add: highlightDataPoints_def cleanDataPointHighlights_def Let_def)

text \<open>
  Claim C10. When the lookup finds no data point, \<open>handleMouseMove\<close> leaves the chart as it
  is: the marker, the highlight circles and the dispatcher's calls; when it finds one, the
  marker moves to the point's position and one \<open>customMouseMove\<close> is dispatched. So the
  event and the marker update occur only when a data point is located.
\<close>

theorem handleMouseMove_only_on_data_point:
  "(getNearestDataPoint (xScale_invert st) (byDate st) (mouseXPosition + - marginLeft st) = None
      \<longrightarrow> handleMouseMove arraySort mouseXPosition st = st)
   \<and> (\<forall>p. getNearestDataPoint (xScale_invert st) (byDate st) (mouseXPosition + - marginLeft st)
           = Some p
      \<longrightarrow> verticalMarkerX (handleMouseMove arraySort mouseXPosition st) =
            xScale st (date (byDate st ! p))
        \<and> dispatched (handleMouseMove arraySort mouseXPosition st) =
            dispatched st @
              [CustomMouseMove (byDate (handleMouseMove arraySort mouseXPosition st) ! p)
                 (colorMap st) (xScale st (date (byDate st ! p)))])"
  by (simp add: handleMouseMove_def Let_def highlightDataPoints_frame moveVerticalMarker_def
      copyDate_def)

theorem handleMouseMove_only_on_data_point_witness:
  "getNearestDataPoint (xScale_invert example_chart) (byDate example_chart)
       (95 + - marginLeft example_chart) = None
   \<and> handleMouseMove keep_order 95 example_chart = example_chart
   \<and> getNearestDataPoint (xScale_invert example_chart) (byDate example_chart)
       (85 + - marginLeft example_chart) = Some 0
   \<and> verticalMarkerX (handleMouseMove keep_order 85 example_chart) = Num 10
   \<and> dispatched (handleMouseMove keep_order 85 example_chart) =
       [CustomMouseMove (entry_at 10) [] (Num 10)]"
proof -
  have n: "getNearestDataPoint (xScale_invert example_chart) (byDate example_chart)
       (95 + - marginLeft example_chart) = None"
    by (simp add: example_chart_def getNearestDataPoint_def bisector_left.simps entry_at_def
        identity_invert_def array_ref_def)
  have s: "getNearestDataPoint (xScale_invert example_chart) (byDate example_chart)
       (85 + - marginLeft example_chart) = Some 0"
    by (simp add: example_chart_def getNearestDataPoint_def bisector_left.simps entry_at_def
        identity_invert_def array_ref_def findOutNearestDate_def copyDate_def)
  have e: "byDate (handleMouseMove keep_order 85 example_chart) ! 0 = entry_at 10"
    using s by (simp add: handleMouseMove_def Let_def highlightDataPoints_def keep_order_def
        cleanDataPointHighlights_def moveVerticalMarker_def example_chart_def entry_at_def
        List.map_filter_simps)
  have x: "xScale example_chart (date (byDate example_chart ! 0)) = Num 10"
    by (simp add: example_chart_def entry_at_def identity_scale_def)
  have c: "colorMap example_chart = []" "dispatched example_chart = []"
    by (simp_all add: example_chart_def)
  show ?thesis
    using handleMouseMove_only_on_data_point [of example_chart 95 keep_order]
      handleMouseMove_only_on_data_point [of example_chart 85 keep_order] n s e x c
    by simp
qed

section \<open>The ticks of the value axis\<close>

text \<open>
  Claim C7, as the code has it. The number of ticks is the span of the value domain (the
  minimum of the configured count and the span) when the span is smaller than the
  configured count minus one, and the configured count otherwise.
\<close>

theorem buildAxis_yTickNumber_threshold:
  "buildAxis_yTickNumber (Num lo, Num hi) (Num n) =
     (if hi - lo < n - 1 then Num (min n (hi - lo)) else Num n)"
  by (simp add: buildAxis_yTickNumber_def Let_def min_def)

text \<open>
  The claim as stated fails between the two thresholds: with five ticks configured and the
  domain \<open>[0, 4]\<close> the span is smaller than the count, and the number of ticks is 5.
\<close>

theorem buildAxis_yTickNumber_span_4_of_5:
  "js_lt (js_sub (Num 4) (Num 0)) (Num (5::real))
   \<and> buildAxis_yTickNumber (Num 0, Num 4) (Num 5) = Num 5
   \<and> buildAxis_yTickNumber (Num 0, Num 4) (Num 5) \<noteq> Num (min 5 (4 - 0))"
  by (simp add: buildAxis_yTickNumber_def Let_def)

section \<open>The order of the highlighted topics\<close>

text \<open>
  Claim C9. \<open>highlightDataPoints\<close> drops the holes and hands \<open>sort\<close> a comparison function
  that returns a boolean: its value is 1 or 0 and never negative, so it says of no pair
  that the first comes before the second. With the colours \<open>#6aedc7\<close> and \<open>#39c2c9\<close> it
  finds topic 1 and topic 2 equal in one direction and out of order in the other. What
  \<open>sort\<close> makes of it is the host's choice: on the topics 1, 2, 3 (a hole among them) one
  host keeps the order 1, 2, 3 and the other gives 3, 1, 2.
\<close>

theorem highlightCompare_never_negative:
  "0 \<le> highlightCompare m a b
   \<and> highlightCompare three_colors (item_of 1) (item_of 2) = 0
   \<and> highlightCompare three_colors (item_of 2) (item_of 1) = 1
   \<and> topics (byDate (highlightDataPoints keep_order 0
         (chart_with_topics [Some (item_of 1), None, Some (item_of 2), Some (item_of 3)])) ! 0) =
       [Some (item_of 1), Some (item_of 2), Some (item_of 3)]
   \<and> topics (byDate (highlightDataPoints insertion_sort 0
         (chart_with_topics [Some (item_of 1), None, Some (item_of 2), Some (item_of 3)])) ! 0) =
       [Some (item_of 3), Some (item_of 1), Some (item_of 2)]"
  by (simp add: highlightCompare_def three_colors_def item_of_def colorOf_def
      highlightDataPoints_def cleanDataPointHighlights_def keep_order_def insertion_sort_def
      chart_with_topics_def example_chart_def List.map_filter_simps Let_def)

end
